theory Spec2Isabelle
  imports Main
begin

section \<open>Strings, values and errors\<close>

text \<open>
  A Python \<open>str\<close> is a sequence of Unicode code points, so a string is a list of
  code points (natural numbers). \<open>str_of\<close> reads an ASCII literal as such a string.
\<close>

type_synonym pystr = "nat list"

definition str_of :: "string \<Rightarrow> pystr" where
  "str_of s = map of_char s"

text \<open>
  The characters for which \<open>str.isspace\<close>, \<open>str.strip\<close>, \<open>str.split\<close> and the
  regular expression class \<open>\s\<close> agree in Python 3.
\<close>

definition is_space_char :: "nat \<Rightarrow> bool" where
  "is_space_char c \<longleftrightarrow>
     (9 \<le> c \<and> c \<le> 13) \<or> (28 \<le> c \<and> c \<le> 32) \<or> c = 133 \<or> c = 160 \<or> c = 5760 \<or>
     (8192 \<le> c \<and> c \<le> 8202) \<or> c = 8232 \<or> c = 8233 \<or> c = 8239 \<or> c = 8287 \<or> c = 12288"

text \<open>The character class of \<open>PUNCTUATION\<close>, in the order of the source.\<close>

definition is_punct_char :: "nat \<Rightarrow> bool" where
  "is_punct_char c \<longleftrightarrow>
     c = 46 \<or> c = 12290 \<or> c = 44 \<or> c = 65292 \<or> c = 63 \<or> c = 191 \<or> c = 65311 \<or>
     c = 1567 \<or> c = 33 \<or> c = 65281 \<or> c = 59 \<or> c = 65307 \<or> c = 58 \<or> c = 65306"

definition is_digit_char :: "nat \<Rightarrow> bool" where
  "is_digit_char c \<longleftrightarrow> 48 \<le> c \<and> c \<le> 57"

text \<open>\<open>PUNCTUATION.sub("", s)\<close> and \<open>WHITESPACE.sub("", s)\<close>.\<close>

definition PUNCTUATION_sub :: "pystr \<Rightarrow> pystr" where
  "PUNCTUATION_sub s = filter (\<lambda>c. \<not> is_punct_char c) s"

definition WHITESPACE_sub :: "pystr \<Rightarrow> pystr" where
  "WHITESPACE_sub s = filter (\<lambda>c. \<not> is_space_char c) s"

definition py_lstrip :: "pystr \<Rightarrow> pystr" where
  "py_lstrip s = dropWhile is_space_char s"

definition py_rstrip :: "pystr \<Rightarrow> pystr" where
  "py_rstrip s = rev (dropWhile is_space_char (rev s))"

definition py_strip :: "pystr \<Rightarrow> pystr" where
  "py_strip s = py_rstrip (py_lstrip s)"

definition py_isspace :: "pystr \<Rightarrow> bool" where
  "py_isspace s \<longleftrightarrow> s \<noteq> [] \<and> list_all is_space_char s"

definition py_startswith :: "pystr \<Rightarrow> pystr \<Rightarrow> bool" where
  "py_startswith s p \<longleftrightarrow> take (length p) s = p"

text \<open>\<open>s.endswith(" ")\<close>.\<close>

definition endswith_space :: "pystr \<Rightarrow> bool" where
  "endswith_space s \<longleftrightarrow> s \<noteq> [] \<and> last s = 32"

text \<open>
  \<open>s.find(sub, start)\<close>: the lowest index from \<open>start\<close> on at which \<open>sub\<close> occurs,
  \<open>-1\<close> when there is none or \<open>start\<close> is beyond the end.
\<close>

fun find_aux :: "pystr \<Rightarrow> pystr \<Rightarrow> nat \<Rightarrow> int" where
  "find_aux sub [] i = (if sub = [] then int i else - 1)"
| "find_aux sub (c # cs) i =
     (if take (length sub) (c # cs) = sub then int i else find_aux sub cs (Suc i))"

definition py_find :: "pystr \<Rightarrow> pystr \<Rightarrow> nat \<Rightarrow> int" where
  "py_find s sub start = (if start > length s then - 1 else find_aux sub (drop start s) start)"

datatype error =
    MissingListError pystr
  | MissingRuleError pystr
  | ValueError
  | TypeError
  | IndexError
  | RecursionError


text \<open>\<open>s.split()[0]\<close>: the first whitespace-delimited token; \<open>IndexError\<close> when there is none.\<close>

definition split_first :: "pystr \<Rightarrow> error + pystr" where
  "split_first s =
     (let tok = takeWhile (\<lambda>c. \<not> is_space_char c) (dropWhile is_space_char s)
      in if tok = [] then Inl IndexError else Inr tok)"

text \<open>
  \<open>NUMBER_START.match(s)\<close>, group 1, for the pattern \<open>^(\s*-?[0-9]+)\<close>. Whitespace, the
  minus sign and the digits are disjoint classes, so the greedy match is the only one.
\<close>

definition NUMBER_START_match :: "pystr \<Rightarrow> pystr option" where
  "NUMBER_START_match s =
     (let ws = takeWhile is_space_char s;
          r = dropWhile is_space_char s;
          sign = (if r \<noteq> [] \<and> hd r = 45 then [45] else []);
          ds = takeWhile is_digit_char (drop (length sign) r)
      in if ds = [] then None else Some (ws @ sign @ ds))"

text \<open>
  \<open>int(s)\<close> on a string of the shape \<open>NUMBER_START\<close> matches. \<open>int\<close> skips leading
  whitespace, but it does not take the separators U+001C to U+001F for whitespace, as
  \<open>\s\<close> does: on them it raises \<open>ValueError\<close>. It also raises \<open>ValueError\<close> when the
  string has more than 4300 digits, the default limit of the conversion from Python 3.11 on.
\<close>

definition digits_value :: "pystr \<Rightarrow> int" where
  "digits_value ds = foldl (\<lambda>a d. 10 * a + (int d - 48)) 0 ds"

definition py_int :: "pystr \<Rightarrow> error + int" where
  "py_int s =
     (let r = dropWhile is_space_char s;
          neg = (r \<noteq> [] \<and> hd r = 45);
          ds = (if neg then tl r else r)
      in if list_ex (\<lambda>c. 28 \<le> c \<and> c \<le> 31) s \<or> ds = [] \<or> \<not> list_all is_digit_char ds \<or>
            length ds > 4300
         then Inl ValueError
         else Inr (if neg then - digits_value ds else digits_value ds))"

text \<open>
  The values of type \<open>Any\<close> that the recognizer compares: \<open>None\<close>, strings, integers and
  lists of values. On these, HOL equality is Python's \<open>==\<close>.
\<close>

datatype pyval = PNone | PStr pystr | PInt int | PList "pyval list"

text \<open>A \<open>dict\<close> with string keys, in insertion order.\<close>

type_synonym 'v dict = "(pystr \<times> 'v) list"

text \<open>\<open>{**a, **b}\<close>: the entries of \<open>b\<close> are stored into a copy of \<open>a\<close>, in order.\<close>

fun dict_set :: "'v dict \<Rightarrow> pystr \<Rightarrow> 'v \<Rightarrow> 'v dict" where
  "dict_set [] k v = [(k, v)]"
| "dict_set ((k', v') # d) k v = (if k' = k then (k', v) # d else (k', v') # dict_set d k v)"

definition dict_merge :: "'v dict \<Rightarrow> 'v dict \<Rightarrow> 'v dict" where
  "dict_merge a b = foldl (\<lambda>d (k, v). dict_set d k v) a b"

text \<open>\<open>isinstance(v, collections.abc.Collection)\<close>: strings are collections too.\<close>

fun is_Collection :: "pyval \<Rightarrow> bool" where
  "is_Collection (PStr _) = True"
| "is_Collection (PList _) = True"
| "is_Collection _ = False"

text \<open>
  \<open>a in v\<close> for a collection \<open>v\<close>: membership in a list, the substring test in a string
  (\<open>TypeError\<close> when \<open>a\<close> is not a string).
\<close>

fun py_in :: "pyval \<Rightarrow> pyval \<Rightarrow> error + bool" where
  "py_in (PStr a) (PStr s) = Inr (0 \<le> py_find s a 0)"
| "py_in a (PStr s) = Inl TypeError"
| "py_in a (PList xs) = Inr (List.member xs a)"
| "py_in a v = Inl TypeError"

section \<open>Expressions, slot lists and intent data\<close>

text \<open>
  Modelled from the spec: the classes of \<open>expression.py\<close> and \<open>intents.py\<close>, which
  \<open>recognize.py\<close> imports. An expression is a text chunk, a sequence (a group or an
  alternative) of expressions, a reference to a slot list, or a reference to an expansion
  rule. A chunk is empty when its text is the empty string.
\<close>

datatype SequenceType = GROUP | ALTERNATIVE

datatype Expression =
    TextChunk pystr
  | Sequence SequenceType "Expression list"
  | ListReference (slot_name: pystr) (list_name: pystr)
  | RuleReference pystr

definition is_empty :: "pystr \<Rightarrow> bool" where
  "is_empty chunk_text \<longleftrightarrow> chunk_text = []"

record TextSlotValue =
  text_in :: Expression
  value_out :: pyval
  sv_context :: "pyval dict option"

datatype SlotList =
    TextSlotList "TextSlotValue list"
  | RangeSlotList (range_start: int) (range_stop: int) (range_step: int)
  | WildcardSlotList

record IntentData =
  sentences :: "Expression list"
  slots :: "pyval dict"
  requires_context :: "pyval dict"
  excludes_context :: "pyval dict"
  id_expansion_rules :: "Expression dict"
  response :: "pystr option"

section \<open>Entities, the store and match contexts\<close>

record MatchEntity =
  ent_name :: pystr
  ent_value :: pyval
  ent_text :: pystr
  is_wildcard :: bool
  is_wildcard_open :: bool

datatype UnmatchedEntity =
    UnmatchedTextEntity pystr pystr bool
  | UnmatchedRangeEntity pystr int

text \<open>
  Entities are objects: contexts share them, and the matcher writes to their fields. The
  store holds the entity objects; a context refers to an entity by its index there.
  Contexts and the lists in them are values, because the matcher never assigns to a field
  of a context and never changes a list in place (it builds new lists with \<open>+\<close>).
\<close>

record store =
  ents :: "MatchEntity list"
  unms :: "UnmatchedEntity list"

record MatchSettings =
  slot_lists :: "SlotList dict"
  expansion_rules :: "Expression dict"
  ignore_whitespace :: bool
  allow_unmatched_entities :: bool

record MatchContext =
  ctx_text :: pystr
  entities :: "nat list"
  intent_context :: "pyval dict"
  is_start_of_word :: bool
  unmatched_entities :: "nat list"
  close_wildcards :: bool
  close_unmatched :: bool

section \<open>Generators\<close>

text \<open>
  \<open>match_expression\<close> is a generator that reads and writes the store. Its model gives what
  a caller sees who enumerates it to its end: the contexts it yields, in order, the exception
  that ends the enumeration if one is raised, and the store at the end. No consumer inside
  \<open>match_expression\<close> touches the store between two items it takes from a generator, so
  the effects happen in the order of this model.
\<close>

type_synonym 'a gen = "store \<Rightarrow> 'a list \<times> error option \<times> store"

definition gen_return :: "'a gen" where
  "gen_return s = ([], None, s)"

definition gen_raise :: "error \<Rightarrow> 'a gen" where
  "gen_raise e s = ([], Some e, s)"

definition gen_yield :: "'a \<Rightarrow> 'a gen" where
  "gen_yield x s = ([x], None, s)"

text \<open>Run \<open>g1\<close>, then \<open>g2\<close> unless \<open>g1\<close> raised.\<close>

definition gen_then :: "'a gen \<Rightarrow> 'a gen \<Rightarrow> 'a gen" where
  "gen_then g1 g2 s =
     (case g1 s of
        (xs, Some e, s1) \<Rightarrow> (xs, Some e, s1)
      | (xs, None, s1) \<Rightarrow> (case g2 s1 of (ys, r, s2) \<Rightarrow> (xs @ ys, r, s2)))"

text \<open>\<open>for x in xs: yield from f(x)\<close>.\<close>

fun gen_for :: "'b list \<Rightarrow> ('b \<Rightarrow> 'a gen) \<Rightarrow> 'a gen" where
  "gen_for [] f = gen_return"
| "gen_for (x # xs) f = gen_then (f x) (gen_for xs f)"

subsection \<open>Creating objects\<close>

text \<open>\<open>MatchContext.__post_init__\<close>: the two loops that close entities in place.\<close>

fun close_entities :: "nat list \<Rightarrow> MatchEntity list \<Rightarrow> MatchEntity list" where
  "close_entities [] es = es"
| "close_entities (a # as) es =
     close_entities as (es[a := (es ! a)\<lparr>is_wildcard_open := False\<rparr>])"

fun close_unmatched_entities :: "nat list \<Rightarrow> UnmatchedEntity list \<Rightarrow> UnmatchedEntity list" where
  "close_unmatched_entities [] us = us"
| "close_unmatched_entities (a # as) us =
     close_unmatched_entities as
       (case us ! a of
          UnmatchedTextEntity n t opn \<Rightarrow> us[a := UnmatchedTextEntity n t False]
        | UnmatchedRangeEntity n v \<Rightarrow> us)"

definition post_init :: "MatchContext \<Rightarrow> store \<Rightarrow> store" where
  "post_init c s =
     \<lparr>ents = (if close_wildcards c then close_entities (entities c) (ents s) else ents s),
      unms = (if close_unmatched c
              then close_unmatched_entities (unmatched_entities c) (unms s) else unms s)\<rparr>"

text \<open>\<open>yield MatchContext(...)\<close>: the context is created, which runs \<open>__post_init__\<close>.\<close>

definition yield_new :: "MatchContext \<Rightarrow> MatchContext gen" where
  "yield_new c s = ([c], None, post_init c s)"

definition new_entity :: "MatchEntity \<Rightarrow> store \<Rightarrow> nat \<times> store" where
  "new_entity e s = (length (ents s), s\<lparr>ents := ents s @ [e]\<rparr>)"

definition new_unmatched :: "UnmatchedEntity \<Rightarrow> store \<Rightarrow> nat \<times> store" where
  "new_unmatched u s = (length (unms s), s\<lparr>unms := unms s @ [u]\<rparr>)"

definition get_open_wildcard :: "store \<Rightarrow> MatchContext \<Rightarrow> nat option" where
  "get_open_wildcard s c =
     (if entities c = [] then None
      else let last_entity = last (entities c)
           in if is_wildcard (ents s ! last_entity) \<and> is_wildcard_open (ents s ! last_entity)
              then Some last_entity else None)"

definition get_open_entity :: "store \<Rightarrow> MatchContext \<Rightarrow> nat option" where
  "get_open_entity s c =
     (if unmatched_entities c = [] then None
      else let last_entity = last (unmatched_entities c)
           in case unms s ! last_entity of
                UnmatchedTextEntity n t opn \<Rightarrow> if opn then Some last_entity else None
              | UnmatchedRangeEntity n v \<Rightarrow> None)"

subsection \<open>\<open>MatchContext.is_match\<close>\<close>

fun wildcards_not_empty :: "store \<Rightarrow> nat list \<Rightarrow> bool" where
  "wildcards_not_empty s [] = True"
| "wildcards_not_empty s (a # as) =
     (if is_wildcard (ents s ! a) \<and> py_strip (ent_text (ents s ! a)) = [] then False
      else wildcards_not_empty s as)"

fun unmatched_not_empty :: "store \<Rightarrow> nat list \<Rightarrow> bool" where
  "unmatched_not_empty s [] = True"
| "unmatched_not_empty s (a # as) =
     (case unms s ! a of
        UnmatchedTextEntity n t opn \<Rightarrow>
          (if py_strip t = [] then False else unmatched_not_empty s as)
      | UnmatchedRangeEntity n v \<Rightarrow> unmatched_not_empty s as)"

definition is_match :: "store \<Rightarrow> MatchContext \<Rightarrow> bool" where
  "is_match s c =
     (if py_strip (PUNCTUATION_sub (ctx_text c)) \<noteq> [] then False
      else if \<not> wildcards_not_empty s (entities c) then False
      else if \<not> unmatched_not_empty s (unmatched_entities c) then False
      else True)"

section \<open>The expression matcher\<close>

subsection \<open>Text chunks\<close>

text \<open>The chunk text and the context text that are compared, lines 633 to 646.\<close>

definition chunk_texts :: "MatchSettings \<Rightarrow> MatchContext \<Rightarrow> pystr \<Rightarrow> pystr \<times> pystr" where
  "chunk_texts settings context chunk =
     (if ignore_whitespace settings
      then (WHITESPACE_sub chunk, WHITESPACE_sub (ctx_text context))
      else if is_start_of_word context
      then (py_lstrip chunk, py_lstrip (ctx_text context))
      else (chunk, ctx_text context))"

text \<open>
  The loop of lines 689 to 710: for each occurrence of the chunk after the start of the
  text, the open wildcard is replaced by a new entity that holds the text before the
  occurrence, and the same chunk is matched again from there (\<open>rec\<close>).
\<close>

lemma find_aux_bounds:
  "find_aux sub cs i = - 1 \<or>
   (int i \<le> find_aux sub cs i \<and> find_aux sub cs i \<le> int (i + length cs))"
proof (induction cs arbitrary: i)
  case Nil
  show ?case by simp
next
  case (Cons c cs)
  show ?case using Cons.IH [of "Suc i"] by auto
qed

lemma py_find_bounds:
  "py_find s sub start = - 1 \<or> (int start \<le> py_find s sub start \<and> py_find s sub start \<le> int (length s))"
  using find_aux_bounds [of sub "drop start s" start] by (auto simp: py_find_def)

function wildcard_loop ::
  "(MatchContext \<Rightarrow> MatchContext gen) \<Rightarrow> MatchContext \<Rightarrow> nat \<Rightarrow> pystr \<Rightarrow> pystr \<Rightarrow> int
     \<Rightarrow> MatchContext gen" where
  "wildcard_loop rec context wildcard context_text chunk_text start_idx =
     (if start_idx > 0 then
        gen_then
          (\<lambda>s. let wildcard_text = take (nat start_idx) context_text;
                   (a, s1) = new_entity
                      \<lparr>ent_name = ent_name (ents s ! wildcard), ent_value = PStr wildcard_text,
                       ent_text = wildcard_text, is_wildcard = False,
                       is_wildcard_open = True\<rparr> s
               in rec \<lparr>ctx_text = drop (nat start_idx) context_text,
                       entities = butlast (entities context) @ [a],
                       intent_context = intent_context context,
                       is_start_of_word = True,
                       unmatched_entities = unmatched_entities context,
                       close_wildcards = False, close_unmatched = False\<rparr> s1)
          (wildcard_loop rec context wildcard context_text chunk_text
             (py_find context_text chunk_text (nat start_idx + 1)))
      else gen_return)"
  by pat_completeness auto
termination
  apply (relation "measure (\<lambda>(rec, context, wildcard, context_text, chunk_text, start_idx).
         if start_idx \<le> 0 then 0 else 1 + nat (int (length context_text) + 1 - start_idx))")
   apply simp
  subgoal for rec c w ct ch i
    using py_find_bounds [of ct ch "nat i + 1"] by auto
  done

text \<open>Lines 662 to 713: the last entity is an open wildcard without text.\<close>

definition match_empty_wildcard ::
  "(MatchContext \<Rightarrow> MatchContext gen) \<Rightarrow> MatchContext \<Rightarrow> nat \<Rightarrow> pystr \<Rightarrow> pystr
     \<Rightarrow> MatchContext gen" where
  "match_empty_wildcard rec context wildcard context_text chunk_text =
     (if py_strip chunk_text = [] then
        yield_new \<lparr>ctx_text = context_text, entities = entities context,
                   intent_context = intent_context context, is_start_of_word = True,
                   unmatched_entities = unmatched_entities context,
                   close_wildcards = False, close_unmatched = False\<rparr>
      else
        (let start_idx = py_find context_text chunk_text 0
         in if start_idx < 0 then gen_return
            else if start_idx = 0 then
              (let start_idx = py_find context_text chunk_text 1
               in if start_idx < 0 then gen_return
                  else wildcard_loop rec context wildcard context_text chunk_text start_idx)
            else wildcard_loop rec context wildcard context_text chunk_text start_idx))"

text \<open>Lines 753 to 770: the open wildcard takes the text before the chunk.\<close>

definition extend_wildcard ::
  "MatchContext \<Rightarrow> nat \<Rightarrow> pystr \<Rightarrow> pystr \<Rightarrow> MatchContext gen" where
  "extend_wildcard context wildcard context_text chunk_text s =
     (let skip_idx = py_find context_text chunk_text 0
      in if skip_idx \<ge> 0 then
           (let e = ents s ! wildcard;
                t = ent_text e @ take (nat skip_idx) context_text;
                s1 = s\<lparr>ents := (ents s)[wildcard := e\<lparr>ent_text := t\<rparr>]\<rparr>
            in if t \<noteq> [] then
                 yield_new \<lparr>ctx_text = drop (nat skip_idx + length chunk_text) (ctx_text context),
                            entities = entities context,
                            intent_context = intent_context context,
                            is_start_of_word = True,
                            unmatched_entities = unmatched_entities context,
                            close_wildcards = False, close_unmatched = False\<rparr>
                   (s1\<lparr>ents := (ents s1)[wildcard := (ents s1 ! wildcard)\<lparr>ent_value := PStr t\<rparr>]\<rparr>)
               else gen_return s1)
         else gen_return s)"

text \<open>Lines 771 to 789: the open unmatched text entity takes the text before the chunk.\<close>

definition extend_unmatched ::
  "MatchContext \<Rightarrow> nat \<Rightarrow> pystr \<Rightarrow> pystr \<Rightarrow> MatchContext gen" where
  "extend_unmatched context unmatched_entity context_text chunk_text s =
     (let skip_idx = py_find context_text chunk_text 0
      in if skip_idx \<ge> 0 then
           (case unms s ! unmatched_entity of
              UnmatchedTextEntity n t0 opn \<Rightarrow>
                (let t = t0 @ take (nat skip_idx) context_text;
                     s1 = s\<lparr>unms := (unms s)[unmatched_entity := UnmatchedTextEntity n t opn]\<rparr>
                 in if t \<noteq> [] then
                      yield_new
                        \<lparr>ctx_text = drop (nat skip_idx + length chunk_text) (ctx_text context),
                         entities = entities context,
                         intent_context = intent_context context,
                         is_start_of_word = True,
                         unmatched_entities = unmatched_entities context,
                         close_wildcards = False, close_unmatched = False\<rparr> s1
                    else gen_return s1)
            | UnmatchedRangeEntity n v \<Rightarrow> gen_return s)
         else gen_return s)"

text \<open>Lines 734 to 792: the match is tried again without punctuation.\<close>

definition match_without_punctuation ::
  "MatchSettings \<Rightarrow> MatchContext \<Rightarrow> pystr \<Rightarrow> nat option \<Rightarrow> MatchContext gen" where
  "match_without_punctuation settings context chunk_text wildcard =
     (let context_text0 = PUNCTUATION_sub (ctx_text context);
          strip_it = (\<not> py_startswith context_text0 chunk_text \<and> is_start_of_word context);
          context_text = (if strip_it then py_lstrip context_text0 else context_text0);
          context_starts_with = py_startswith context_text chunk_text
      in if context_starts_with then
           yield_new \<lparr>ctx_text = drop (length chunk_text) context_text,
                      entities = entities context,
                      intent_context = intent_context context,
                      is_start_of_word = is_start_of_word context,
                      unmatched_entities = unmatched_entities context,
                      close_wildcards = False, close_unmatched = False\<rparr>
         else (case wildcard of
                 Some w \<Rightarrow> extend_wildcard context w context_text chunk_text
               | None \<Rightarrow>
                   (\<lambda>s. if allow_unmatched_entities settings then
                          (case get_open_entity s context of
                             Some u \<Rightarrow> extend_unmatched context u context_text chunk_text s
                           | None \<Rightarrow> gen_return s)
                        else gen_return s)))"

text \<open>Lines 630 to 792.\<close>

definition match_chunk ::
  "(MatchContext \<Rightarrow> MatchContext gen) \<Rightarrow> MatchSettings \<Rightarrow> MatchContext \<Rightarrow> pystr
     \<Rightarrow> MatchContext gen" where
  "match_chunk rec settings context chunk s =
     (let (chunk_text, context_text) = chunk_texts settings context chunk;
          is_context_text_empty = (length (py_strip context_text) = 0)
      in if is_empty chunk then gen_yield context s
         else
           (let wildcard = get_open_wildcard s context
            in if wildcard \<noteq> None \<and> py_strip (ent_text (ents s ! the wildcard)) = [] then
                 match_empty_wildcard rec context (the wildcard) context_text chunk_text s
               else if py_startswith context_text chunk_text then
                 (let is_chunk_word = (chunk_text \<noteq> [] \<and> \<not> py_isspace chunk_text)
                  in yield_new \<lparr>ctx_text = drop (length chunk_text) context_text,
                                entities = entities context,
                                intent_context = intent_context context,
                                is_start_of_word = endswith_space chunk,
                                unmatched_entities = unmatched_entities context,
                                close_wildcards = is_chunk_word,
                                close_unmatched = is_chunk_word\<rparr> s)
               else if is_context_text_empty \<and> py_isspace chunk_text then gen_yield context s
               else match_without_punctuation settings context chunk_text wildcard s))"

subsection \<open>Sequences\<close>

text \<open>
  Lines 804 to 818: the loop over the items of a group. Each round is a list comprehension,
  which takes every context of every candidate before the next item starts; an exception in
  it leaves the generator before anything is yielded.
\<close>

fun group_loop ::
  "(MatchContext \<Rightarrow> Expression \<Rightarrow> MatchContext gen) \<Rightarrow> Expression list \<Rightarrow> MatchContext list
     \<Rightarrow> MatchContext gen" where
  "group_loop rec [] group_contexts s = (group_contexts, None, s)"
| "group_loop rec (item # items) group_contexts s =
     (case gen_for group_contexts (\<lambda>group_context. rec group_context item) s of
        (item_contexts, Some e, s1) \<Rightarrow> ([], Some e, s1)
      | (item_contexts, None, s1) \<Rightarrow>
          if item_contexts = [] then ([], None, s1)
          else group_loop rec items item_contexts s1)"

subsection \<open>List references\<close>

text \<open>
  Lines 833 to 895, the body of the loop over the values of a text slot list. The inner
  generator \<open>value_contexts\<close> is run to its end first; the loop body only creates objects, so
  that the same contexts and entities result.
\<close>

definition slot_value_context ::
  "MatchContext \<Rightarrow> pystr \<Rightarrow> TextSlotValue \<Rightarrow> MatchContext \<Rightarrow> MatchContext gen" where
  "slot_value_context context ref_slot_name slot_value value_context s =
     (let (a, s1) = new_entity
            \<lparr>ent_name = ref_slot_name, ent_value = value_out slot_value,
             ent_text = (if ctx_text value_context \<noteq> []
                         then take (length (ctx_text context) - length (ctx_text value_context))
                                (ctx_text context)
                         else ctx_text context),
             is_wildcard = False, is_wildcard_open = True\<rparr> s
      in if sv_context slot_value \<noteq> None \<and> sv_context slot_value \<noteq> Some [] then
           yield_new \<lparr>ctx_text = ctx_text value_context,
                      entities = entities context @ [a],
                      intent_context =
                        dict_merge (intent_context context) (the (sv_context slot_value)),
                      is_start_of_word = is_start_of_word context,
                      unmatched_entities = unmatched_entities context,
                      close_wildcards = False, close_unmatched = False\<rparr> s1
         else
           yield_new \<lparr>ctx_text = ctx_text value_context,
                      entities = entities context @ [a],
                      intent_context = intent_context value_context,
                      is_start_of_word = is_start_of_word context,
                      unmatched_entities = unmatched_entities context,
                      close_wildcards = False, close_unmatched = False\<rparr> s1)"

definition match_slot_value ::
  "(MatchContext \<Rightarrow> Expression \<Rightarrow> MatchContext gen) \<Rightarrow> MatchSettings \<Rightarrow> MatchContext \<Rightarrow> pystr
     \<Rightarrow> TextSlotValue \<Rightarrow> MatchContext gen" where
  "match_slot_value rec settings context ref_slot_name slot_value s =
     (case rec \<lparr>ctx_text = ctx_text context, entities = entities context,
                intent_context = intent_context context,
                is_start_of_word = is_start_of_word context,
                unmatched_entities = unmatched_entities context,
                close_wildcards = False, close_unmatched = False\<rparr>
               (text_in slot_value) s of
        (value_contexts, r, s1) \<Rightarrow>
          gen_then (gen_for value_contexts (slot_value_context context ref_slot_name slot_value))
            (case r of
               Some e \<Rightarrow> gen_raise e
             | None \<Rightarrow>
                 if value_contexts = [] \<and> allow_unmatched_entities settings then
                   (\<lambda>s2. let (u, s3) = new_unmatched (UnmatchedTextEntity ref_slot_name [] True) s2
                         in yield_new \<lparr>ctx_text = ctx_text context,
                                        entities = entities context,
                                        intent_context = intent_context context,
                                        is_start_of_word = is_start_of_word context,
                                        unmatched_entities = unmatched_entities context @ [u],
                                        close_wildcards = True, close_unmatched = False\<rparr> s3)
                 else gen_return) s1)"

text \<open>
  \<open>n in range(start, stop + 1, step)\<close>; \<open>range\<close> raises \<open>ValueError\<close> for the step zero.
\<close>

definition in_py_range :: "int \<Rightarrow> int \<Rightarrow> int \<Rightarrow> int \<Rightarrow> error + bool" where
  "in_py_range n start stop1 step =
     (if step = 0 then Inl ValueError
      else if step > 0 then Inr (start \<le> n \<and> n < stop1 \<and> (n - start) mod step = 0)
      else Inr (stop1 < n \<and> n \<le> start \<and> (start - n) mod (- step) = 0))"

text \<open>Lines 897 to 960.\<close>

definition match_range ::
  "MatchSettings \<Rightarrow> MatchContext \<Rightarrow> pystr \<Rightarrow> int \<Rightarrow> int \<Rightarrow> int \<Rightarrow> MatchContext gen" where
  "match_range settings context ref_slot_name start stop step s =
     (if ctx_text context \<noteq> [] then
        (case NUMBER_START_match (ctx_text context) of
           Some number_text \<Rightarrow>
             (case py_int number_text of
                Inl e \<Rightarrow> gen_raise e s
              | Inr word_number \<Rightarrow>
                  (case (if step = 1 then Inr (start \<le> word_number \<and> word_number \<le> stop)
                         else in_py_range word_number start (stop + 1) step) of
                     Inl e \<Rightarrow> gen_raise e s
                   | Inr in_range \<Rightarrow>
                       if in_range then
                         (case split_first (ctx_text context) of
                            Inl e \<Rightarrow> gen_raise e s
                          | Inr tok \<Rightarrow>
                              (let (a, s1) = new_entity
                                     \<lparr>ent_name = ref_slot_name, ent_value = PInt word_number,
                                      ent_text = tok, is_wildcard = False,
                                      is_wildcard_open = True\<rparr> s
                               in yield_new
                                    \<lparr>ctx_text = drop (length number_text) (ctx_text context),
                                     entities = entities context @ [a],
                                     intent_context = intent_context context,
                                     is_start_of_word = is_start_of_word context,
                                     unmatched_entities = unmatched_entities context,
                                     close_wildcards = False, close_unmatched = False\<rparr> s1))
                       else if allow_unmatched_entities settings then
                         (let (u, s1) = new_unmatched
                                (UnmatchedRangeEntity ref_slot_name word_number) s
                          in yield_new
                               \<lparr>ctx_text = drop (length number_text) (ctx_text context),
                                entities = entities context,
                                intent_context = intent_context context,
                                is_start_of_word = is_start_of_word context,
                                unmatched_entities = unmatched_entities context @ [u],
                                close_wildcards = False, close_unmatched = False\<rparr> s1)
                       else gen_return s))
         | None \<Rightarrow>
             if allow_unmatched_entities settings then
               (let (u, s1) = new_unmatched (UnmatchedTextEntity ref_slot_name [] True) s
                in yield_new \<lparr>ctx_text = ctx_text context,
                              entities = entities context,
                              intent_context = intent_context context,
                              is_start_of_word = is_start_of_word context,
                              unmatched_entities = unmatched_entities context @ [u],
                              close_wildcards = True, close_unmatched = False\<rparr> s1)
             else gen_return s)
      else gen_return s)"

text \<open>Lines 961 to 978.\<close>

definition match_wildcard :: "MatchContext \<Rightarrow> pystr \<Rightarrow> MatchContext gen" where
  "match_wildcard context ref_slot_name s =
     (if ctx_text context \<noteq> [] then
        (let (a, s1) = new_entity
               \<lparr>ent_name = ref_slot_name, ent_value = PStr [], ent_text = [],
                is_wildcard = True, is_wildcard_open = True\<rparr> s
         in yield_new \<lparr>ctx_text = ctx_text context,
                       entities = entities context @ [a],
                       intent_context = intent_context context,
                       is_start_of_word = is_start_of_word context,
                       unmatched_entities = unmatched_entities context,
                       close_wildcards = False, close_unmatched = True\<rparr> s1)
      else gen_return s)"

text \<open>Lines 822 to 980.\<close>

definition match_list_reference ::
  "(MatchContext \<Rightarrow> Expression \<Rightarrow> MatchContext gen) \<Rightarrow> MatchSettings \<Rightarrow> MatchContext
     \<Rightarrow> pystr \<Rightarrow> pystr \<Rightarrow> MatchContext gen" where
  "match_list_reference rec settings context ref_slot_name ref_list_name =
     (if slot_lists settings = [] \<or> map_of (slot_lists settings) ref_list_name = None
      then gen_raise (MissingListError ref_list_name)
      else
        (case the (map_of (slot_lists settings) ref_list_name) of
           TextSlotList values \<Rightarrow>
             if ctx_text context \<noteq> [] then
               gen_for values (match_slot_value rec settings context ref_slot_name)
             else gen_return
         | RangeSlotList start stop step \<Rightarrow>
             match_range settings context ref_slot_name start stop step
         | WildcardSlotList \<Rightarrow> match_wildcard context ref_slot_name))"

subsection \<open>\<open>match_expression\<close>\<close>

text \<open>
  The first argument bounds the depth of the nested calls; Python ends a deeper recursion
  with \<open>RecursionError\<close>. A sequence type is a group or an alternative, a slot list is one of
  the three kinds and an expression one of the four, so the three \<open>ValueError\<close> branches of
  the source cannot be reached.
\<close>

fun match_expression ::
  "nat \<Rightarrow> MatchSettings \<Rightarrow> MatchContext \<Rightarrow> Expression \<Rightarrow> MatchContext gen" where
  "match_expression 0 settings context expression = gen_raise RecursionError"
| "match_expression (Suc n) settings context (TextChunk chunk) =
     match_chunk (\<lambda>c. match_expression n settings c (TextChunk chunk)) settings context chunk"
| "match_expression (Suc n) settings context (Sequence ALTERNATIVE items) =
     gen_for items (\<lambda>item. match_expression n settings context item)"
| "match_expression (Suc n) settings context (Sequence GROUP items) =
     (if items \<noteq> [] then
        group_loop (\<lambda>group_context item. match_expression n settings group_context item)
          items [context]
      else gen_return)"
| "match_expression (Suc n) settings context (ListReference ref_slot_name ref_list_name) =
     match_list_reference (\<lambda>c e. match_expression n settings c e) settings context
       ref_slot_name ref_list_name"
| "match_expression (Suc n) settings context (RuleReference rule_name) =
     (if expansion_rules settings = [] \<or> map_of (expansion_rules settings) rule_name = None
      then gen_raise (MissingRuleError rule_name)
      else match_expression n settings context
             (the (map_of (expansion_rules settings) rule_name)))"

section \<open>The recognizer's filter before matching\<close>

text \<open>
  The body of \<open>recognize_all\<close> that decides, from the caller's intent context alone,
  whether an intent data is skipped before any of its sentences is matched. Each loop
  returns the value of \<open>skip_data\<close> when it ends.
\<close>

fun requires_loop :: "pyval dict \<Rightarrow> pyval dict \<Rightarrow> error + bool" where
  "requires_loop ic [] = Inr False"
| "requires_loop ic ((required_key, required_value) # items) =
     (case map_of ic required_key of
        None \<Rightarrow> requires_loop ic items
      | Some actual_value \<Rightarrow>
          if required_value = PNone then requires_loop ic items
          else if is_Collection required_value then
            (case py_in actual_value required_value of
               Inl e \<Rightarrow> Inl e
             | Inr b \<Rightarrow> if \<not> b then Inr True else requires_loop ic items)
          else if actual_value \<noteq> required_value then Inr True
          else requires_loop ic items)"

fun excludes_loop :: "pyval dict \<Rightarrow> pyval dict \<Rightarrow> error + bool" where
  "excludes_loop ic [] = Inr False"
| "excludes_loop ic ((excluded_key, excluded_value) # items) =
     (case map_of ic excluded_key of
        None \<Rightarrow> excludes_loop ic items
      | Some actual_value \<Rightarrow>
          if is_Collection excluded_value then
            (case py_in actual_value excluded_value of
               Inl e \<Rightarrow> Inl e
             | Inr b \<Rightarrow> if b then Inr True else excludes_loop ic items)
          else if actual_value = excluded_value then Inr True
          else excludes_loop ic items)"

text \<open>
  \<open>pre_match_skip\<close> is \<open>Inr True\<close> when the intent data is skipped. As in the source, the
  second loop is entered when \<open>excludes_context\<close> is not empty, and runs over the items of
  \<open>requires_context\<close>.
\<close>

definition pre_match_skip :: "pyval dict \<Rightarrow> IntentData \<Rightarrow> error + bool" where
  "pre_match_skip ic intent_data =
     (if ic \<noteq> [] then
        (case (if requires_context intent_data \<noteq> []
               then requires_loop ic (requires_context intent_data) else Inr False) of
           Inl e \<Rightarrow> Inl e
         | Inr skip_data \<Rightarrow>
             if skip_data then Inr True
             else if excludes_context intent_data \<noteq> []
               then excludes_loop ic (requires_context intent_data)
               else Inr False)
      else Inr False)"


section \<open>\<open>recognize\<close>\<close>

text \<open>
  \<open>recognize_all\<close> is a generator function. What a caller takes from a generator, item
  by item, is a result, the end of the enumeration, or an exception.
\<close>

datatype 'a generator = Stop | Raise error | Yield 'a "'a generator"

text \<open>
  Lines 249 to 261: \<open>for result in recognize_all(...): return result\<close>, then
  \<open>return None\<close>. The loop takes the first item only.
\<close>

fun return_first :: "'a generator \<Rightarrow> error + 'a option" where
  "return_first Stop = Inr None"
| "return_first (Raise e) = Inl e"
| "return_first (Yield result rest) = Inr (Some result)"

text \<open>
  \<open>recognize\<close> passes each of its eight arguments to the parameter of \<open>recognize_all\<close> of
  the same name. \<open>recognize_all\<close> is an argument here: what follows holds for every
  behaviour of that generator function.
\<close>

definition recognize ::
  "(pystr \<Rightarrow> 'intents \<Rightarrow> SlotList dict option \<Rightarrow> Expression dict option \<Rightarrow> pystr list option
      \<Rightarrow> pyval dict option \<Rightarrow> pystr option \<Rightarrow> bool \<Rightarrow> 'result generator)
   \<Rightarrow> pystr \<Rightarrow> 'intents \<Rightarrow> SlotList dict option \<Rightarrow> Expression dict option
   \<Rightarrow> pystr list option \<Rightarrow> pyval dict option \<Rightarrow> pystr option \<Rightarrow> bool
   \<Rightarrow> error + 'result option" where
  "recognize recognize_all text_arg intents slot_lists_arg expansion_rules_arg skip_words
     intent_context_arg default_response allow_unmatched =
     return_first
       (recognize_all text_arg intents slot_lists_arg expansion_rules_arg skip_words
          intent_context_arg default_response allow_unmatched)"

section \<open>Auxiliary definitions for the statements\<close>

text \<open>What closing does to one unmatched entity.\<close>

fun closed_unmatched :: "UnmatchedEntity \<Rightarrow> UnmatchedEntity" where
  "closed_unmatched (UnmatchedTextEntity n t opn) = UnmatchedTextEntity n t False"
| "closed_unmatched (UnmatchedRangeEntity n v) = UnmatchedRangeEntity n v"

text \<open>
  The group as the spec words it: a left fold over the items. The working list of candidate
  contexts starts with the input context; each item replaces the list with the flat-map of
  matching that item over the current candidates; an empty list aborts; the contexts that
  survive are emitted. An exception ends the fold with nothing emitted.
\<close>

definition flat_map_step ::
  "(MatchContext \<Rightarrow> Expression \<Rightarrow> MatchContext gen)
     \<Rightarrow> MatchContext list \<times> error option \<times> store \<Rightarrow> Expression
     \<Rightarrow> MatchContext list \<times> error option \<times> store" where
  "flat_map_step match acc item =
     (case acc of
        (candidates, Some e, s) \<Rightarrow> ([], Some e, s)
      | (candidates, None, s) \<Rightarrow>
          if candidates = [] then ([], None, s)
          else (case gen_for candidates (\<lambda>c. match c item) s of
                  (cs, Some e, s1) \<Rightarrow> ([], Some e, s1)
                | (cs, None, s1) \<Rightarrow> (cs, None, s1)))"

definition group_fold_spec ::
  "(MatchContext \<Rightarrow> Expression \<Rightarrow> MatchContext gen) \<Rightarrow> Expression list \<Rightarrow> MatchContext
     \<Rightarrow> MatchContext gen" where
  "group_fold_spec match items context s = foldl (flat_map_step match) ([context], None, s) items"

text \<open>
  The results a generator yields until it ends, and the exception that ends it, if any.
\<close>

fun yielded :: "'a generator \<Rightarrow> 'a list" where
  "yielded Stop = []"
| "yielded (Raise e) = []"
| "yielded (Yield x g) = x # yielded g"

fun raised :: "'a generator \<Rightarrow> error option" where
  "raised Stop = None"
| "raised (Raise e) = Some e"
| "raised (Yield x g) = raised g"

text \<open>Settings, a context and a store for the concrete instances below.\<close>

abbreviation ex_settings :: MatchSettings where
  "ex_settings \<equiv>
     \<lparr>slot_lists =
        [(str_of ''name'',
          TextSlotList [\<lparr>text_in = TextChunk (str_of ''kitchen light''),
                         value_out = PStr (str_of ''light.kitchen''),
                         sv_context = Some [(str_of ''area'', PStr (str_of ''kitchen''))]\<rparr>]),
         (str_of ''brightness'', RangeSlotList 0 100 1),
         (str_of ''song'', WildcardSlotList)],
      expansion_rules = [], ignore_whitespace = False, allow_unmatched_entities = False\<rparr>"

abbreviation ex_context :: "string \<Rightarrow> MatchContext" where
  "ex_context t \<equiv>
     \<lparr>ctx_text = str_of t, entities = [], intent_context = [], is_start_of_word = True,
      unmatched_entities = [], close_wildcards = False, close_unmatched = False\<rparr>"

abbreviation ex_store :: store where
  "ex_store \<equiv> \<lparr>ents = [], unms = []\<rparr>"


abbreviation ex_slot_value :: TextSlotValue where
  "ex_slot_value \<equiv>
     \<lparr>text_in = TextChunk (str_of ''kitchen light''),
      value_out = PStr (str_of ''light.kitchen''),
      sv_context = Some [(str_of ''area'', PStr (str_of ''kitchen''))]\<rparr>"

abbreviation ex_overlay_context :: MatchContext where
  "ex_overlay_context \<equiv>
     (ex_context ''kitchen light '')
       \<lparr>intent_context := [(str_of ''area'', PStr (str_of ''attic'')),
                            (str_of ''floor'', PInt 1)]\<rparr>"

section \<open>Acceptance of a context\<close>

text \<open>The definitions that evaluate a match on a concrete input.\<close>

lemmas eval_defs = str_of_def match_slot_value_def match_chunk_def chunk_texts_def
  get_open_wildcard_def get_open_entity_def py_lstrip_def py_strip_def py_rstrip_def
  py_startswith_def py_isspace_def is_space_char_def is_punct_char_def is_empty_def
  yield_new_def post_init_def gen_then_def gen_return_def gen_yield_def gen_raise_def
  endswith_space_def slot_value_context_def new_entity_def new_unmatched_def dict_merge_def
  match_without_punctuation_def PUNCTUATION_sub_def match_list_reference_def
  match_wildcard_def match_range_def py_find_def

lemma wildcards_not_empty_iff:
  "wildcards_not_empty s as \<longleftrightarrow>
     (\<forall>a \<in> set as. is_wildcard (ents s ! a) \<longrightarrow> py_strip (ent_text (ents s ! a)) \<noteq> [])"
  by (induction as) auto

lemma unmatched_not_empty_iff:
  "unmatched_not_empty s as \<longleftrightarrow>
     (\<forall>a \<in> set as. \<forall>n t opn. unms s ! a = UnmatchedTextEntity n t opn \<longrightarrow> py_strip t \<noteq> [])"
  by (induction as) (auto split: UnmatchedEntity.splits)

text \<open>
  C3. A context is a match if and only if its remaining text, with every punctuation
  character removed and then stripped of whitespace, is empty, every wildcard entity of the
  context has a text that is not empty after stripping, and every unmatched text entity of
  the context has a text that is not empty after stripping.
\<close>

theorem is_match_iff:
  "is_match s c \<longleftrightarrow>
     py_strip (PUNCTUATION_sub (ctx_text c)) = [] \<and>
     (\<forall>a \<in> set (entities c).
        is_wildcard (ents s ! a) \<longrightarrow> py_strip (ent_text (ents s ! a)) \<noteq> []) \<and>
     (\<forall>a \<in> set (unmatched_entities c). \<forall>n t opn.
        unms s ! a = UnmatchedTextEntity n t opn \<longrightarrow> py_strip t \<noteq> [])"
  unfolding is_match_def wildcards_not_empty_iff unmatched_not_empty_iff by auto

theorem is_match_iff_witness:
  "is_match \<lparr>ents = [\<lparr>ent_name = str_of ''song'', ent_value = PStr (str_of ''hey''),
                 ent_text = str_of ''hey'', is_wildcard = True, is_wildcard_open = False\<rparr>],
            unms = [UnmatchedTextEntity (str_of ''area'') (str_of ''attic'') False]\<rparr>
     \<lparr>ctx_text = str_of ''. '', entities = [0], intent_context = [], is_start_of_word = True,
      unmatched_entities = [0], close_wildcards = False, close_unmatched = False\<rparr>"
  using is_match_iff [of "\<lparr>ents = [\<lparr>ent_name = str_of ''song'', ent_value = PStr (str_of ''hey''),
                 ent_text = str_of ''hey'', is_wildcard = True, is_wildcard_open = False\<rparr>],
            unms = [UnmatchedTextEntity (str_of ''area'') (str_of ''attic'') False]\<rparr>"
     "\<lparr>ctx_text = str_of ''. '', entities = [0], intent_context = [], is_start_of_word = True,
      unmatched_entities = [0], close_wildcards = False, close_unmatched = False\<rparr>"]
  by (simp add: py_strip_def py_lstrip_def py_rstrip_def str_of_def is_space_char_def
      PUNCTUATION_sub_def is_punct_char_def)

section \<open>The filter before matching and the excluded context\<close>

text \<open>
  C1. The claim is that the filter before matching runs over \<open>excludes_context\<close>: an
  excluded key that is absent from the intent context is no reason to skip, and an excluded
  key that is present with a matching value skips the intent data. The code runs the
  second loop over \<open>requires_context\<close> instead. With the intent context
  \<open>{area: kitchen}\<close>: an intent data that requires \<open>area = kitchen\<close> and excludes
  \<open>domain = light\<close> is skipped although \<open>domain\<close> is absent, and an intent data that
  requires nothing and excludes \<open>area = kitchen\<close> is not skipped.
\<close>

theorem pre_match_skip_excludes_divergence:
  "pre_match_skip [(str_of ''area'', PStr (str_of ''kitchen''))]
     \<lparr>sentences = [], slots = [],
      requires_context = [(str_of ''area'', PStr (str_of ''kitchen''))],
      excludes_context = [(str_of ''domain'', PStr (str_of ''light''))],
      id_expansion_rules = [], response = None\<rparr> = Inr True
   \<and> map_of [(str_of ''area'', PStr (str_of ''kitchen''))] (str_of ''domain'') = None
   \<and> pre_match_skip [(str_of ''area'', PStr (str_of ''kitchen''))]
     \<lparr>sentences = [], slots = [],
      requires_context = [],
      excludes_context = [(str_of ''area'', PStr (str_of ''kitchen''))],
      id_expansion_rules = [], response = None\<rparr> = Inr False"
  by (simp add: pre_match_skip_def str_of_def py_find_def)

section \<open>List references\<close>

lemma close_unmatched_entities_Cons:
  "close_unmatched_entities (a # as) us =
     close_unmatched_entities as (us[a := closed_unmatched (us ! a)])"
proof (cases "us ! a")
  case (UnmatchedTextEntity n t opn)
  then show ?thesis by simp
next
  case (UnmatchedRangeEntity n v)
  then have "us[a := UnmatchedRangeEntity n v] = us"
    using list_update_id [of us a] by simp
  with UnmatchedRangeEntity show ?thesis by simp
qed

lemma closed_unmatched_idem [simp]: "closed_unmatched (closed_unmatched u) = closed_unmatched u"
  by (cases u) auto

lemma close_unmatched_entities_length [simp]:
  "length (close_unmatched_entities as us) = length us"
  by (induction as arbitrary: us) (auto split: UnmatchedEntity.splits)

lemma close_unmatched_entities_nth:
  "a < length us \<Longrightarrow>
   close_unmatched_entities as us ! a =
     (if a \<in> set as then closed_unmatched (us ! a) else us ! a)"
proof (induction as arbitrary: us)
  case Nil
  show ?case by simp
next
  case (Cons b as)
  have step: "closed_unmatched (us[b := closed_unmatched (us ! b)] ! a) = closed_unmatched (us ! a)"
    using Cons.prems by (cases "a = b") auto
  show ?case
    unfolding close_unmatched_entities_Cons
    using Cons.prems Cons.IH [of "us[b := closed_unmatched (us ! b)]"] step
    by (cases "a = b") auto
qed

lemma post_init_no_flags [simp]:
  "\<not> close_wildcards c \<Longrightarrow> \<not> close_unmatched c \<Longrightarrow> post_init c s = s"
  by (simp add: post_init_def)







text \<open>
  C10. For a list reference whose list name resolves in the settings, whatever the kind of
  the slot list and whether or not unmatched entities are allowed: when the remaining text
  of the context is the empty string, \<open>match_expression\<close> yields no context, raises nothing
  and leaves the store as it is, so that no unmatched entity is created.
\<close>

theorem list_reference_empty_text:
  "map_of (slot_lists settings) ref_list_name = Some slot_list \<Longrightarrow> ctx_text context = [] \<Longrightarrow>
   match_expression (Suc n) settings context (ListReference ref_slot_name ref_list_name) s
     = ([], None, s)"
  by (cases slot_list)
     (auto simp: match_list_reference_def match_range_def match_wildcard_def gen_return_def)

theorem list_reference_empty_text_witness:
  "map_of (slot_lists (ex_settings\<lparr>allow_unmatched_entities := True\<rparr>)) (str_of ''brightness'')
     = Some (RangeSlotList 0 100 1) \<and>
   ctx_text (ex_context []) = [] \<and>
   match_expression (Suc 0) (ex_settings\<lparr>allow_unmatched_entities := True\<rparr>) (ex_context [])
     (ListReference (str_of ''brightness'') (str_of ''brightness'')) ex_store
     = ([], None, ex_store)"
proof -
  have h1: "map_of (slot_lists (ex_settings\<lparr>allow_unmatched_entities := True\<rparr>))
              (str_of ''brightness'') = Some (RangeSlotList 0 100 1)"
    by (simp add: str_of_def)
  have h2: "ctx_text (ex_context []) = []"
    by (simp add: str_of_def)
  show ?thesis
    using h1 h2 list_reference_empty_text [OF h1 h2, of 0 "str_of ''brightness''" ex_store]
    by blast
qed

text \<open>
  C5. As the claim is written, for every input context: it fails for a context whose
  remaining text is empty, where nothing is yielded.
\<close>

theorem wildcard_list_reference_empty_text_counterexample:
  "match_expression (Suc 0) ex_settings (ex_context [])
     (ListReference (str_of ''song'') (str_of ''song'')) ex_store = ([], None, ex_store)"
  by (simp add: str_of_def match_list_reference_def match_wildcard_def gen_return_def)

text \<open>
  C5, amended. For every settings and every input context whose remaining text is not
  empty, matching a list reference that resolves to a wildcard slot list yields exactly one
  context and raises nothing. The context has the text, the intent context and the
  unmatched entities of the input; its entities are those of the input followed by one new
  entity, an open wildcard with the slot name of the reference and empty text. In the
  store, every unmatched text entity of the context is closed, and nothing else changes.
\<close>

theorem wildcard_list_reference:
  assumes "map_of (slot_lists settings) ref_list_name = Some WildcardSlotList"
    and "ctx_text context \<noteq> []"
  shows "\<exists>c' s'.
     match_expression (Suc n) settings context (ListReference ref_slot_name ref_list_name) s
       = ([c'], None, s') \<and>
     ctx_text c' = ctx_text context \<and>
     intent_context c' = intent_context context \<and>
     is_start_of_word c' = is_start_of_word context \<and>
     unmatched_entities c' = unmatched_entities context \<and>
     entities c' = entities context @ [length (ents s)] \<and>
     ents s' = ents s @ [\<lparr>ent_name = ref_slot_name, ent_value = PStr [], ent_text = [],
                          is_wildcard = True, is_wildcard_open = True\<rparr>] \<and>
     length (unms s') = length (unms s) \<and>
     (\<forall>a < length (unms s).
        unms s' ! a =
          (if a \<in> set (unmatched_entities context)
           then closed_unmatched (unms s ! a)
           else unms s ! a))"
  using assms
  by (auto simp: match_list_reference_def match_wildcard_def yield_new_def new_entity_def
      post_init_def close_unmatched_entities_nth)

theorem wildcard_list_reference_witness:
  "map_of (slot_lists ex_settings) (str_of ''song'') = Some WildcardSlotList \<and>
   ctx_text ((ex_context ''hey jude '')\<lparr>unmatched_entities := [0]\<rparr>) \<noteq> [] \<and>
   (\<exists>c' s'.
     match_expression (Suc 0) ex_settings ((ex_context ''hey jude '')\<lparr>unmatched_entities := [0]\<rparr>)
         (ListReference (str_of ''song'') (str_of ''song''))
         \<lparr>ents = [], unms = [UnmatchedTextEntity (str_of ''name'') (str_of ''x'') True]\<rparr>
       = ([c'], None, s') \<and>
     ctx_text c' = str_of ''hey jude '' \<and>
     entities c' = [0] \<and>
     ents s' = [\<lparr>ent_name = str_of ''song'', ent_value = PStr [], ent_text = [],
                 is_wildcard = True, is_wildcard_open = True\<rparr>] \<and>
     unms s' ! 0 = UnmatchedTextEntity (str_of ''name'') (str_of ''x'') False)"
proof -
  have h1: "map_of (slot_lists ex_settings) (str_of ''song'') = Some WildcardSlotList"
    by (simp add: str_of_def)
  have h2: "ctx_text ((ex_context ''hey jude '')\<lparr>unmatched_entities := [0]\<rparr>) \<noteq> []"
    by (simp add: str_of_def)
  show ?thesis
    using h1 h2 wildcard_list_reference [OF h1 h2, of 0 "str_of ''song''"
        "\<lparr>ents = [], unms = [UnmatchedTextEntity (str_of ''name'') (str_of ''x'') True]\<rparr>"]
    by auto
qed




section \<open>Groups\<close>

lemma foldl_flat_map_step_raised:
  "foldl (flat_map_step match) ([], Some e, s) items = ([], Some e, s)"
  by (induction items) (auto simp: flat_map_step_def)

lemma foldl_flat_map_step_empty:
  "foldl (flat_map_step match) ([], None, s) items = ([], None, s)"
  by (induction items) (auto simp: flat_map_step_def)

lemma group_loop_foldl:
  "gcs \<noteq> [] \<Longrightarrow> group_loop match items gcs s = foldl (flat_map_step match) (gcs, None, s) items"
proof (induction items arbitrary: gcs s)
  case Nil
  show ?case by simp
next
  case (Cons item items)
  obtain cs r s1 where run: "gen_for gcs (\<lambda>c. match c item) s = (cs, r, s1)"
    by (cases "gen_for gcs (\<lambda>c. match c item) s") auto
  have step: "flat_map_step match (gcs, None, s) item =
      (case r of Some e \<Rightarrow> ([], Some e, s1) | None \<Rightarrow> (cs, None, s1))"
    using run Cons.prems by (simp add: flat_map_step_def split: option.splits)
  show ?case
  proof (cases r)
    case (Some e)
    with run step show ?thesis
      by (simp add: foldl_flat_map_step_raised)
  next
    case None
    show ?thesis
    proof (cases "cs = []")
      case True
      with run None step show ?thesis
        by (simp add: foldl_flat_map_step_empty)
    next
      case False
      with run None step Cons.IH [OF False, of s1] show ?thesis
        by simp
    qed
  qed
qed

text \<open>
  C6. As the claim is written, a group with an empty item list emits the input context: it
  fails, because the loop of the source is guarded by \<open>if seq.items:\<close> and the empty
  group emits nothing.
\<close>

theorem group_empty_counterexample:
  "fst (match_expression (Suc 0) ex_settings (ex_context ''hello '') (Sequence GROUP []) ex_store) = []
   \<and> fst (match_expression (Suc 0) ex_settings (ex_context ''hello '') (Sequence GROUP []) ex_store)
       \<noteq> [ex_context ''hello '']"
  by (simp add: gen_return_def)

text \<open>
  C6, amended. Matching a group with at least one item folds left: starting from the
  candidate list that contains just the input context, each item in order replaces the
  candidate list with the flat-map of matching that item over the current candidates, the
  fold aborts when the list becomes empty, and every surviving context is emitted. A group
  with an empty item list emits nothing.
\<close>

theorem group_sequence_fold:
  "match_expression (Suc n) settings context (Sequence GROUP items) s =
     (if items = [] then ([], None, s)
      else group_fold_spec (match_expression n settings) items context s)"
  by (simp add: group_fold_spec_def group_loop_foldl gen_return_def)

theorem group_sequence_fold_witness:
  "[TextChunk (str_of ''hello'')] \<noteq> [] \<and>
   match_expression (Suc (Suc 0)) ex_settings (ex_context ''hello '')
       (Sequence GROUP [TextChunk (str_of ''hello'')]) ex_store =
     group_fold_spec (match_expression (Suc 0) ex_settings) [TextChunk (str_of ''hello'')]
       (ex_context ''hello '') ex_store"
  using group_sequence_fold [of "Suc 0" ex_settings "ex_context ''hello ''"
      "[TextChunk (str_of ''hello'')]" ex_store]
  by simp

section \<open>Context overlays of slot values\<close>

lemma map_of_dict_set: "map_of (dict_set d k v) = (map_of d)(k \<mapsto> v)"
  by (induction d) (auto simp: fun_eq_iff)

lemma map_of_foldl_dict_set:
  "distinct (map fst b) \<Longrightarrow>
   map_of (foldl (\<lambda>d (k, v). dict_set d k v) a b) = map_of a ++ map_of b"
proof (induction b arbitrary: a)
  case Nil
  show ?case by simp
next
  case (Cons kv b)
  obtain k v where kv: "kv = (k, v)" by (cases kv)
  have "map_of b k = None"
    using Cons.prems kv by (simp add: map_of_eq_None_iff)
  then have swap: "(map_of a)(k \<mapsto> v) ++ map_of b = map_of a ++ map_of ((k, v) # b)"
    by (auto simp: fun_eq_iff map_add_def split: option.splits)
  have "distinct (map fst b)" using Cons.prems by simp
  then have "map_of (foldl (\<lambda>d (k, v). dict_set d k v) (dict_set a k v) b)
      = map_of (dict_set a k v) ++ map_of b"
    by (rule Cons.IH)
  also have "\<dots> = (map_of a)(k \<mapsto> v) ++ map_of b"
    by (simp only: map_of_dict_set)
  also note swap
  finally show ?case by (simp only: kv foldl_Cons prod.case)
qed

lemma map_of_dict_merge:
  "distinct (map fst b) \<Longrightarrow> map_of (dict_merge a b) = map_of a ++ map_of b"
  by (simp add: dict_merge_def map_of_foldl_dict_set)

lemma gen_for_yields:
  "gen_for xs f s = (ys, r, s') \<Longrightarrow> y \<in> set ys \<Longrightarrow>
   \<exists>x \<in> set xs. \<exists>s1 ys1 r1 s2. f x s1 = (ys1, r1, s2) \<and> y \<in> set ys1"
proof (induction xs arbitrary: s ys r s')
  case Nil
  then show ?case by (simp add: gen_return_def)
next
  case (Cons x xs)
  obtain ys1 r1 s1 where fx: "f x s = (ys1, r1, s1)" by (cases "f x s") auto
  show ?case
  proof (cases r1)
    case (Some e)
    with fx Cons.prems show ?thesis by (auto simp: gen_then_def)
  next
    case None
    obtain ys2 r2 s2 where rest: "gen_for xs f s1 = (ys2, r2, s2)"
      by (cases "gen_for xs f s1") auto
    with fx None Cons.prems have "y \<in> set ys1 \<or> y \<in> set ys2"
      by (auto simp: gen_then_def)
    then show ?thesis
    proof
      assume "y \<in> set ys1" with fx show ?thesis by auto
    next
      assume "y \<in> set ys2"
      from Cons.IH [OF rest this] show ?thesis by auto
    qed
  qed
qed

lemma slot_value_context_overlay:
  assumes "slot_value_context context sn sv vc s1 = (ys, r, s2)" and "c' \<in> set ys"
    and "sv_context sv = Some ov" and "ov \<noteq> []"
  shows "intent_context c' = dict_merge (intent_context context) ov \<and>
         entities c' \<noteq> entities context"
  using assms by (auto simp: slot_value_context_def yield_new_def new_entity_def)

lemma match_slot_value_yields:
  assumes "match_slot_value rec settings context sn sv s = (ys, r, s')" and "c' \<in> set ys"
  shows "(\<exists>vc s1 ys1 r1 s2. slot_value_context context sn sv vc s1 = (ys1, r1, s2) \<and> c' \<in> set ys1)
         \<or> entities c' = entities context"
proof -
  obtain vcs r0 s0 where run:
    "rec \<lparr>ctx_text = ctx_text context, entities = entities context,
          intent_context = intent_context context,
          is_start_of_word = is_start_of_word context,
          unmatched_entities = unmatched_entities context,
          close_wildcards = False, close_unmatched = False\<rparr> (text_in sv) s = (vcs, r0, s0)"
    by (metis prod_cases3)
  obtain ys1 r1 s1 where loop:
    "gen_for vcs (slot_value_context context sn sv) s0 = (ys1, r1, s1)"
    by (metis prod_cases3)
  show ?thesis
  proof (cases "c' \<in> set ys1")
    case True
    from gen_for_yields [OF loop True] show ?thesis by blast
  next
    case False
    with assms run loop have "entities c' = entities context"
      by (auto simp: match_slot_value_def gen_then_def gen_raise_def gen_return_def
          yield_new_def new_unmatched_def split: option.splits if_splits prod.splits)
    then show ?thesis by simp
  qed
qed

text \<open>
  C8. For a list reference that resolves to a text slot list, \<open>match_expression\<close> runs
  \<open>match_slot_value\<close> for each value in order. When a value that carries a context overlay
  (a non-empty dict) matches, every context yielded for that match (a context with the new
  match entity) has as its intent context the intent context of the input merged with the
  overlay: a key of the overlay maps to the overlay's value, every other key maps to what
  it mapped to before, and no key that was present is removed.
\<close>

theorem slot_value_overlay:
  assumes "map_of (slot_lists settings) ref_list_name = Some (TextSlotList values)"
    and "ctx_text context \<noteq> []"
  shows
   "match_expression (Suc n) settings context (ListReference ref_slot_name ref_list_name) =
      gen_for values
        (match_slot_value (match_expression n settings) settings context ref_slot_name)
    \<and> (\<forall>slot_value ov s ys r s' c'.
         match_slot_value (match_expression n settings) settings context ref_slot_name
           slot_value s = (ys, r, s') \<and>
         sv_context slot_value = Some ov \<and> ov \<noteq> [] \<and> distinct (map fst ov) \<and>
         c' \<in> set ys \<and> entities c' \<noteq> entities context \<longrightarrow>
         intent_context c' = dict_merge (intent_context context) ov \<and>
         map_of (intent_context c') = map_of (intent_context context) ++ map_of ov \<and>
         (\<forall>k v. map_of ov k = Some v \<longrightarrow> map_of (intent_context c') k = Some v) \<and>
         (\<forall>k. map_of ov k = None \<longrightarrow>
              map_of (intent_context c') k = map_of (intent_context context) k) \<and>
         dom (map_of (intent_context context)) \<subseteq> dom (map_of (intent_context c')))"
proof (intro conjI allI impI)
  show "match_expression (Suc n) settings context (ListReference ref_slot_name ref_list_name) =
      gen_for values
        (match_slot_value (match_expression n settings) settings context ref_slot_name)"
    using assms by (auto simp: match_list_reference_def)
next
  fix slot_value ov s ys r s' c'
  assume a: "match_slot_value (match_expression n settings) settings context ref_slot_name
           slot_value s = (ys, r, s') \<and>
         sv_context slot_value = Some ov \<and> ov \<noteq> [] \<and> distinct (map fst ov) \<and>
         c' \<in> set ys \<and> entities c' \<noteq> entities context"
  then have m: "intent_context c' = dict_merge (intent_context context) ov"
    using match_slot_value_yields [of "match_expression n settings" settings "context"
        ref_slot_name slot_value s ys r s' c'] slot_value_context_overlay
    by blast
  then show "intent_context c' = dict_merge (intent_context context) ov" .
  from m a show eq: "map_of (intent_context c') = map_of (intent_context context) ++ map_of ov"
    by (simp add: map_of_dict_merge)
  show "map_of (intent_context c') k = Some v" if "map_of ov k = Some v" for k v
    using that eq by (simp add: map_add_def)
  show "map_of (intent_context c') k = map_of (intent_context context) k"
    if "map_of ov k = None" for k
    using that eq by (simp add: map_add_def)
  show "dom (map_of (intent_context context)) \<subseteq> dom (map_of (intent_context c'))"
    using eq by auto
qed

theorem slot_value_overlay_witness:
  "map_of (slot_lists ex_settings) (str_of ''name'') = Some (TextSlotList [ex_slot_value]) \<and>
   ctx_text ex_overlay_context \<noteq> [] \<and>
   (\<exists>c' s'. match_slot_value (match_expression (Suc 0) ex_settings) ex_settings ex_overlay_context
        (str_of ''name'') ex_slot_value ex_store = ([c'], None, s') \<and>
      entities c' \<noteq> entities ex_overlay_context \<and>
      map_of (intent_context c') =
        map_of (intent_context ex_overlay_context) ++ map_of [(str_of ''area'', PStr (str_of ''kitchen''))] \<and>
      map_of (intent_context c') (str_of ''area'') = Some (PStr (str_of ''kitchen'')) \<and>
      map_of (intent_context c') (str_of ''floor'') = Some (PInt 1))"
proof -
  have h1: "map_of (slot_lists ex_settings) (str_of ''name'') = Some (TextSlotList [ex_slot_value])"
    by (simp add: str_of_def)
  have h2: "ctx_text ex_overlay_context \<noteq> []" by (simp add: str_of_def)
  obtain c' s' where run:
    "match_slot_value (match_expression (Suc 0) ex_settings) ex_settings ex_overlay_context
        (str_of ''name'') ex_slot_value ex_store = ([c'], None, s')"
    and ent: "entities c' \<noteq> entities ex_overlay_context"
    by (simp add: eval_defs)
  have prem:
    "match_slot_value (match_expression (Suc 0) ex_settings) ex_settings ex_overlay_context
        (str_of ''name'') ex_slot_value ex_store = ([c'], None, s') \<and>
     sv_context ex_slot_value = Some [(str_of ''area'', PStr (str_of ''kitchen''))] \<and>
     [(str_of ''area'', PStr (str_of ''kitchen''))] \<noteq> [] \<and>
     distinct (map fst [(str_of ''area'', PStr (str_of ''kitchen''))]) \<and>
     c' \<in> set [c'] \<and> entities c' \<noteq> entities ex_overlay_context"
    using run ent by simp
  note concl = slot_value_overlay [OF h1 h2, of "Suc 0" "str_of ''name''", THEN conjunct2,
      rule_format, OF prem]
  have eq: "map_of (intent_context c') =
        map_of (intent_context ex_overlay_context) ++ map_of [(str_of ''area'', PStr (str_of ''kitchen''))]"
    by (rule concl [THEN conjunct2, THEN conjunct1])
  then have "map_of (intent_context c') (str_of ''area'') = Some (PStr (str_of ''kitchen''))"
    and "map_of (intent_context c') (str_of ''floor'') = Some (PInt 1)"
    by (simp_all add: str_of_def)
  with h1 h2 run ent eq show ?thesis by blast
qed

section \<open>Missing lists and rules\<close>





section \<open>The first result\<close>

text \<open>
  C9. For all arguments, \<open>recognize\<close> returns the first result that \<open>recognize_all\<close> yields
  for the same arguments, and it returns \<open>None\<close> exactly when \<open>recognize_all\<close> ends without
  having yielded a result. When \<open>recognize_all\<close> raises an exception before its first
  result, \<open>recognize\<close> does not return: it raises that exception.
\<close>

theorem recognize_first:
  "recognize recognize_all text_arg intents slot_lists_arg expansion_rules_arg skip_words
     intent_context_arg default_response allow_unmatched =
     (case yielded (recognize_all text_arg intents slot_lists_arg expansion_rules_arg
                      skip_words intent_context_arg default_response allow_unmatched) of
        first_result # others \<Rightarrow> Inr (Some first_result)
      | [] \<Rightarrow>
          (case raised (recognize_all text_arg intents slot_lists_arg expansion_rules_arg
                          skip_words intent_context_arg default_response allow_unmatched) of
             None \<Rightarrow> Inr None
           | Some e \<Rightarrow> Inl e))
   \<and> (recognize recognize_all text_arg intents slot_lists_arg expansion_rules_arg skip_words
         intent_context_arg default_response allow_unmatched = Inr None
       \<longleftrightarrow> recognize_all text_arg intents slot_lists_arg expansion_rules_arg skip_words
             intent_context_arg default_response allow_unmatched = Stop)"
  unfolding recognize_def
  by (cases "recognize_all text_arg intents slot_lists_arg expansion_rules_arg skip_words
        intent_context_arg default_response allow_unmatched") auto

end
